theory Spec2Isabelle
  imports Main
begin

text \<open>
  The Bottle plugin \<open>SwaggerPlugin\<close> of the package \<open>bottle_swagger\<close>
  (\<open>bottle_swagger/__init__.py\<close>, version 2.0.0). The repository also holds
  \<open>bottle_swagger.py\<close>, the single-file predecessor of the package, without the UI and
  with the same intercept routine; \<open>import bottle_swagger\<close> loads the package, which is
  the code modelled here.
\<close>

section \<open>Python values and exceptions\<close>

text \<open>
  The values handlers return and dictionaries hold. A Python \<open>dict\<close> keeps insertion
  order, so it is an association list. \<open>PObj\<close> stands for any object that is neither
  \<open>None\<close>, a bool, an int, a str, a list nor a dict (a Bravado model, a file, ...).
\<close>

datatype pyval =
    PNone
  | PBool bool
  | PInt int
  | PStr string
  | PList "pyval list"
  | PDict "(string \<times> pyval) list"
  | PObj string

type_synonym pydict = "(string \<times> pyval) list"

text \<open>
  Exceptions by the classes the source tells apart; each carries the text \<open>str(e)\<close>
  gives. \<open>HTTPResponse\<close> (bottle) carries its status too. \<open>AttributeError\<close> carries the
  attribute's name. \<open>OtherException\<close> is any other subclass of \<open>Exception\<close>,
  \<open>NonException\<close> any \<open>BaseException\<close> that is not an \<open>Exception\<close>
  (\<open>KeyboardInterrupt\<close>, \<open>SystemExit\<close>).
\<close>

datatype exn =
    ValidationError string
  | MatchingResponseNotFound string
  | HTTPResponse int string
  | AttributeError string
  | OtherException string
  | NonException string

fun str_exn :: "exn \<Rightarrow> string" where
  "str_exn (ValidationError m) = m"
| "str_exn (MatchingResponseNotFound m) = m"
| "str_exn (HTTPResponse st m) = m"
| "str_exn (AttributeError a) = a"
| "str_exn (OtherException m) = m"
| "str_exn (NonException m) = m"

text \<open>\<open>isinstance(e, Exception)\<close>, \<open>isinstance(e, HTTPResponse)\<close> and the two except clauses.\<close>

fun is_Exception :: "exn \<Rightarrow> bool" where
  "is_Exception (NonException m) = False"
| "is_Exception e = True"

fun is_HTTPResponse :: "exn \<Rightarrow> bool" where
  "is_HTTPResponse (HTTPResponse st m) = True"
| "is_HTTPResponse e = False"

fun is_ValidationError :: "exn \<Rightarrow> bool" where
  "is_ValidationError (ValidationError m) = True"
| "is_ValidationError e = False"

fun is_MatchingResponseNotFound :: "exn \<Rightarrow> bool" where
  "is_MatchingResponseNotFound (MatchingResponseNotFound m) = True"
| "is_MatchingResponseNotFound e = False"

text \<open>\<open>isinstance(result, (dict, list))\<close>\<close>

fun is_dict_or_list :: "pyval \<Rightarrow> bool" where
  "is_dict_or_list (PDict d) = True"
| "is_dict_or_list (PList xs) = True"
| "is_dict_or_list v = False"

section \<open>String methods\<close>

definition startswith :: "string \<Rightarrow> string \<Rightarrow> bool" where
  "startswith s p \<longleftrightarrow> take (length p) s = p"

definition lstrip :: "char \<Rightarrow> string \<Rightarrow> string" where
  "lstrip c s = dropWhile (\<lambda>x. x = c) s"

definition rstrip :: "char \<Rightarrow> string \<Rightarrow> string" where
  "rstrip c s = rev (dropWhile (\<lambda>x. x = c) (rev s))"


section \<open>Path-pattern translation\<close>

text \<open>
  \<open>_swagger_op\<close> rewrites the route rule with
  \<^verbatim>\<open>re.sub(r'/<(.+?)(:.+)?>', r'/{\1}', route.rule)\<close>.
  The functions below are Python's backtracking matcher specialised to this pattern, one
  function per piece of the pattern, each trying its alternatives in the order \<open>re\<close> does.
  Without \<open>re.DOTALL\<close> the dot matches every character but the newline.
\<close>

definition dot :: "char \<Rightarrow> bool" where
  "dot c \<longleftrightarrow> c \<noteq> CHR 0x0A"

text \<open>
  \<^verbatim>\<open>.*>\<close> with a greedy star: the star first takes the character and goes on; only when
  that fails does it stop here and ask for the \<open>>\<close>. The result is the text after the match.
\<close>

fun star_gt :: "string \<Rightarrow> string option" where
  "star_gt [] = None"
| "star_gt (c # cs) =
     (if dot c then
        (case star_gt cs of
           Some r \<Rightarrow> Some r
         | None \<Rightarrow> if c = CHR ''>'' then Some cs else None)
      else None)"

text \<open>\<^verbatim>\<open>.+>\<close>: one character, then \<^verbatim>\<open>.*>\<close>.\<close>

fun plus_gt :: "string \<Rightarrow> string option" where
  "plus_gt [] = None"
| "plus_gt (c # cs) = (if dot c then star_gt cs else None)"

text \<open>A single \<^verbatim>\<open>>\<close>.\<close>

fun gt :: "string \<Rightarrow> string option" where
  "gt [] = None"
| "gt (c # cs) = (if c = CHR ''>'' then Some cs else None)"

text \<open>
  \<^verbatim>\<open>(:.+)?>\<close>: the optional group is greedy, so the matcher first tries to enter it and
  only then tries to skip it.
\<close>

fun modifier_gt :: "string \<Rightarrow> string option" where
  "modifier_gt [] = None"
| "modifier_gt (c # cs) =
     (if c = CHR '':'' then
        (case plus_gt cs of
           Some r \<Rightarrow> Some r
         | None \<Rightarrow> gt (c # cs))
      else gt (c # cs))"

text \<open>
  \<^verbatim>\<open>(.+?)\<close> followed by the rest of the pattern: the lazy plus holds \<open>name\<close> already,
  tries the rest of the pattern at once and takes one more character only when that fails.
  The result is group 1 and the text after the match.
\<close>

fun lazy_name :: "string \<Rightarrow> string \<Rightarrow> (string \<times> string) option" where
  "lazy_name name [] = None"
| "lazy_name name (c # cs) =
     (case modifier_gt (c # cs) of
        Some r \<Rightarrow> Some (name, r)
      | None \<Rightarrow> if dot c then lazy_name (name @ [c]) cs else None)"

text \<open>The whole pattern, anchored at the start of the text.\<close>

fun match_here :: "string \<Rightarrow> (string \<times> string) option" where
  "match_here (a # b # c # cs) =
     (if a = CHR ''/'' \<and> b = CHR ''<'' \<and> dot c then lazy_name [c] cs else None)"
| "match_here s = None"

lemma star_gt_shorter: "star_gt s = Some r \<Longrightarrow> length r < length s"
  by (induction s arbitrary: r) (auto split: if_splits option.splits)

lemma plus_gt_shorter: "plus_gt s = Some r \<Longrightarrow> length r < length s"
  by (cases s) (auto split: if_splits dest: star_gt_shorter)

lemma gt_shorter: "gt s = Some r \<Longrightarrow> length r < length s"
  by (cases s) (auto split: if_splits)

lemma modifier_gt_shorter: "modifier_gt s = Some r \<Longrightarrow> length r < length s"
  by (cases s) (auto split: if_splits option.splits dest: plus_gt_shorter)

lemma lazy_name_shorter: "lazy_name n s = Some (g, r) \<Longrightarrow> length r < length s"
proof (induction s arbitrary: n)
  case Nil
  then show ?case by simp
next
  case (Cons c cs)
  show ?case
  proof (cases "modifier_gt (c # cs)")
    case None
    with Cons.prems have "lazy_name (n @ [c]) cs = Some (g, r)"
      by (simp split: if_splits)
    from Cons.IH [OF this] show ?thesis by simp
  next
    case (Some r')
    with Cons.prems have "r' = r" by simp
    with Some modifier_gt_shorter show ?thesis by blast
  qed
qed

lemma match_here_shorter: "match_here s = Some (g, r) \<Longrightarrow> length r < length s"
proof (cases s rule: match_here.cases)
  case (1 a b c cs)
  assume m: "match_here s = Some (g, r)"
  with 1 have "lazy_name [c] cs = Some (g, r)" by (simp split: if_splits)
  from lazy_name_shorter [OF this] 1 show ?thesis by simp
qed simp_all

text \<open>
  \<open>re.sub\<close>: scan from the left; where the pattern matches, emit the replacement
  \<^verbatim>\<open>/{\1}\<close> and go on after the match; elsewhere copy one character. The pattern never
  matches the empty string.
\<close>

function re_sub :: "string \<Rightarrow> string" where
  "re_sub [] = []"
| "re_sub (c # cs) =
     (case match_here (c # cs) of
        Some (name, rest) \<Rightarrow> ''/{'' @ name @ ''}'' @ re_sub rest
      | None \<Rightarrow> c # re_sub cs)"
  by pat_completeness auto
termination
  by (relation "measure length") (auto dest: match_here_shorter)

section \<open>The request context\<close>

text \<open>
  bottle's thread-local \<open>request\<close> and \<open>response\<close>, the dictionaries living on the
  Python heap (a dictionary object is its address, an index into \<open>heap\<close>), and \<open>app\<close>:
  everything else a route handler can change.
\<close>

record 's world =
  heap :: "pydict list"
  request_method :: string
  request_script_name :: "string option"
  request_swagger_op :: "string option"
  request_swagger_data :: "pyval option"
  response_status :: int
  response_content_type :: string
  app :: 's

text \<open>
  A bottle route: its rule and the text \<open>str(route)\<close> gives. An operation of the schema is
  opaque to the plugin; it is named by its operation id.
\<close>

record route =
  rule :: string
  route_str :: string

type_synonym operation = string

text \<open>
  Code that is called (a handler, a library function) reads and writes the world and either
  raises or returns.
\<close>

type_synonym ('s, 'a) action = "'s world \<Rightarrow> (exn + 'a) \<times> 's world"

text \<open>
  The calls \<open>_swagger_validate\<close> makes, recorded in the order they are made. The record is
  kept beside the world, out of reach of the code that is called.
\<close>

datatype event =
    GetOpForRequest string string
  | UnmarshalRequest
  | Callback
  | GetResponseSpec int
  | ValidateResponse
  | JsonDumps
  | InvalidRequestHandler
  | InvalidResponseHandler
  | SwaggerOpNotFoundHandler
  | ExceptionHandler

type_synonym 's traced = "'s world \<times> event list"

definition call :: "event \<Rightarrow> ('s, 'a) action \<Rightarrow> 's traced \<Rightarrow> (exn + 'a) \<times> 's traced" where
  "call ev f st = (case f (fst st) of (r, w) \<Rightarrow> (r, (w, snd st @ [ev])))"

section \<open>The libraries the plugin calls\<close>

text \<open>
  bravado-core, bottle and urllib are not part of the repository; the plugin is verified for
  every behaviour of theirs. \<open>lib_from_dict\<close> is \<open>Spec.from_dict\<close>: given the dictionary
  and the configuration it raises or returns the \<open>api_url\<close> of the specification it built,
  and leaves the dictionary as its second result (it may have written to it).
  \<open>lib_urlparse_path\<close> is \<open>urlparse(url).path\<close>.
\<close>

record spec =
  spec_dict :: nat
  api_url :: string

record 's library =
  lib_from_dict :: "pydict \<Rightarrow> pydict \<Rightarrow> (exn + string) \<times> pydict"
  lib_get_op_for_request :: "spec \<Rightarrow> string \<Rightarrow> string \<Rightarrow> ('s, operation option) action"
  lib_unmarshal_request :: "operation \<Rightarrow> ('s, pyval) action"
  lib_get_response_spec :: "int \<Rightarrow> operation \<Rightarrow> ('s, pyval) action"
  lib_validate_response :: "pyval \<Rightarrow> operation \<Rightarrow> pyval \<Rightarrow> ('s, unit) action"
  lib_json_dumps :: "pyval \<Rightarrow> exn + string"
  lib_urljoin :: "string \<Rightarrow> string \<Rightarrow> string"
  lib_urlparse_path :: "string \<Rightarrow> string"
  lib_get_url :: "string \<Rightarrow> string"
  lib_render_index_html :: "string \<Rightarrow> string option \<Rightarrow> ('s, pyval) action"
  lib_static_file :: "string \<Rightarrow> ('s, pyval) action"

section \<open>The plugin object and the default handlers\<close>

record 's plugin =
  ignore_undefined_routes :: bool
  auto_jsonify :: bool
  invalid_request_handler :: "exn \<Rightarrow> ('s, pyval) action"
  invalid_response_handler :: "exn \<Rightarrow> ('s, pyval) action"
  swagger_op_not_found_handler :: "route \<Rightarrow> ('s, pyval) action"
  exception_handler :: "exn \<Rightarrow> ('s, pyval) action"
  serve_swagger_schema :: bool
  serve_swagger_ui :: bool
  swagger_ui_validator_url :: "string option"
  swagger_schema_suburl :: string
  swagger_ui_suburl :: string
  bravado_config :: pydict
  swagger :: spec
  swagger_base_path :: string
  adjust_api_base_path :: bool
  swagger_schema_url :: string
  swagger_ui_base_url :: string

text \<open>
  \<open>_error_response(status, e)\<close> sets the response status and returns the payload; its second
  argument here is \<open>str(e)\<close> already.
\<close>

definition error_response :: "int \<Rightarrow> string \<Rightarrow> ('s, pyval) action" where
  "error_response status msg w =
     (Inr (PDict [(''code'', PInt status), (''message'', PStr msg)]),
      w\<lparr>response_status := status\<rparr>)"

definition default_server_error_handler :: "exn \<Rightarrow> ('s, pyval) action" where
  "default_server_error_handler e = error_response 500 (str_exn e)"

definition default_bad_request_handler :: "exn \<Rightarrow> ('s, pyval) action" where
  "default_bad_request_handler e = error_response 400 (str_exn e)"

definition default_not_found_handler :: "route \<Rightarrow> ('s, pyval) action" where
  "default_not_found_handler r = error_response 404 (route_str r)"

section \<open>Dictionaries\<close>

text \<open>
  \<open>d[k] = v\<close>: a key already present keeps its place, a new key goes last.
  \<open>d.update(e)\<close> stores the items of \<open>e\<close> one by one. \<open>k in d\<close>.
\<close>

fun dict_set :: "pydict \<Rightarrow> string \<Rightarrow> pyval \<Rightarrow> pydict" where
  "dict_set [] k v = [(k, v)]"
| "dict_set ((k', v') # d) k v =
     (if k' = k then (k, v) # d else (k', v') # dict_set d k v)"

fun dict_update :: "pydict \<Rightarrow> pydict \<Rightarrow> pydict" where
  "dict_update d [] = d"
| "dict_update d ((k, v) # e) = dict_update (dict_set d k v) e"


section \<open>Construction\<close>

text \<open>
  The arguments of \<open>SwaggerPlugin.__init__\<close>. \<open>arg_swagger_def\<close> is the address of the
  caller's dictionary.
\<close>

record 's init_args =
  arg_swagger_def :: nat
  arg_validate_swagger_spec :: bool
  arg_validate_requests :: bool
  arg_validate_responses :: bool
  arg_use_bravado_models :: bool
  arg_user_defined_formats :: "pyval list option"
  arg_include_missing_properties :: bool
  arg_default_type_to_object :: bool
  arg_internally_dereference_refs :: bool
  arg_ignore_undefined_api_routes :: bool
  arg_auto_jsonify :: bool
  arg_invalid_request_handler :: "exn \<Rightarrow> ('s, pyval) action"
  arg_invalid_response_handler :: "exn \<Rightarrow> ('s, pyval) action"
  arg_swagger_op_not_found_handler :: "route \<Rightarrow> ('s, pyval) action"
  arg_exception_handler :: "exn \<Rightarrow> ('s, pyval) action"
  arg_swagger_base_path :: "string option"
  arg_adjust_api_base_path :: bool
  arg_serve_swagger_schema :: bool
  arg_swagger_schema_suburl :: string
  arg_serve_swagger_ui :: bool
  arg_swagger_ui_suburl :: string
  arg_swagger_ui_validator_url :: "string option"
  arg_extra_bravado_config :: "pydict option"

definition DEFAULT_SWAGGER_SCHEMA_SUBURL :: string where
  "DEFAULT_SWAGGER_SCHEMA_SUBURL = ''/swagger.json''"

definition DEFAULT_SWAGGER_UI_SUBURL :: string where
  "DEFAULT_SWAGGER_UI_SUBURL = ''/ui/''"

text \<open>The defaults of the keyword arguments.\<close>

definition default_args :: "nat \<Rightarrow> 's init_args" where
  "default_args swagger_def =
     \<lparr>arg_swagger_def = swagger_def,
      arg_validate_swagger_spec = True,
      arg_validate_requests = True,
      arg_validate_responses = True,
      arg_use_bravado_models = True,
      arg_user_defined_formats = None,
      arg_include_missing_properties = True,
      arg_default_type_to_object = False,
      arg_internally_dereference_refs = False,
      arg_ignore_undefined_api_routes = False,
      arg_auto_jsonify = True,
      arg_invalid_request_handler = default_bad_request_handler,
      arg_invalid_response_handler = default_server_error_handler,
      arg_swagger_op_not_found_handler = default_not_found_handler,
      arg_exception_handler = default_server_error_handler,
      arg_swagger_base_path = None,
      arg_adjust_api_base_path = True,
      arg_serve_swagger_schema = True,
      arg_swagger_schema_suburl = DEFAULT_SWAGGER_SCHEMA_SUBURL,
      arg_serve_swagger_ui = False,
      arg_swagger_ui_suburl = DEFAULT_SWAGGER_UI_SUBURL,
      arg_swagger_ui_validator_url = None,
      arg_extra_bravado_config = None\<rparr>"

text \<open>
  Reading an attribute of the object under construction. \<open>d\<close> holds the boolean attributes
  assigned so far; the class \<open>SwaggerPlugin\<close> itself defines
  \<open>DEFAULT_SWAGGER_SCHEMA_SUBURL\<close>, \<open>DEFAULT_SWAGGER_UI_SUBURL\<close>, \<open>name\<close>, \<open>api\<close> and its
  methods, so a name found neither in \<open>d\<close> nor among those raises \<open>AttributeError\<close>.
\<close>

definition getattr :: "(string \<times> bool) list \<Rightarrow> string \<Rightarrow> exn + bool" where
  "getattr d n =
     (case map_of d n of
        Some b \<Rightarrow> Inr b
      | None \<Rightarrow> Inl (AttributeError n))"

text \<open>\<open>a or b\<close> on booleans: \<open>b\<close> is evaluated only when \<open>a\<close> is false.\<close>

definition py_or :: "bool \<Rightarrow> exn + bool \<Rightarrow> exn + bool" where
  "py_or a b = (if a then Inr True else b)"

text \<open>\<open>a or b\<close> on strings: the empty string is false.\<close>

definition str_or :: "string \<Rightarrow> string \<Rightarrow> string" where
  "str_or a b = (if a \<noteq> [] then a else b)"

text \<open>
  \<open>SwaggerPlugin.__init__\<close> (source lines 222 to 256), on the heap of dictionaries. It
  returns the plugin or the exception raised, and the heap as it is then.
  \<open>dict(swagger_def)\<close> makes a new dictionary object with the same items; the override is
  written to that object, which is the one \<open>Spec.from_dict\<close> receives and keeps.
  The configuration dictionaries are passed by value.
\<close>

definition init :: "'s init_args \<Rightarrow> 's library \<Rightarrow> pydict list \<Rightarrow> (exn + 's plugin) \<times> pydict list" where
  "init a lib h =
     (let swagger_def = length h;
          h1 = h @ [h ! arg_swagger_def a];
          h2 = (case arg_swagger_base_path a of
                  Some p \<Rightarrow> h1[swagger_def := dict_set (h1 ! swagger_def) ''basePath'' (PStr p)]
                | None \<Rightarrow> h1);
          assigned = [(''ignore_undefined_routes'', arg_ignore_undefined_api_routes a),
                      (''auto_jsonify'', arg_auto_jsonify a)]
      in case py_or (arg_serve_swagger_schema a) (getattr assigned ''serve_swagger_ui'') of
           Inl e \<Rightarrow> (Inl e, h2)
         | Inr serve_schema \<Rightarrow>
             (let config = dict_update
                    (case arg_extra_bravado_config a of Some c \<Rightarrow> c | None \<Rightarrow> [])
                    [(''validate_swagger_spec'', PBool (arg_validate_swagger_spec a)),
                     (''validate_requests'', PBool (arg_validate_requests a)),
                     (''validate_responses'', PBool (arg_validate_responses a)),
                     (''use_models'', PBool (arg_use_bravado_models a)),
                     (''formats'', PList (case arg_user_defined_formats a of
                                            Some fs \<Rightarrow> fs | None \<Rightarrow> [])),
                     (''include_missing_properties'', PBool (arg_include_missing_properties a)),
                     (''default_type_to_object'', PBool (arg_default_type_to_object a)),
                     (''internally_dereference_refs'',
                        PBool (arg_internally_dereference_refs a))]
              in case lib_from_dict lib (h2 ! swagger_def) config of
                   (Inl e, d) \<Rightarrow> (Inl e, h2[swagger_def := d])
                 | (Inr url, d) \<Rightarrow>
                     (let base = str_or
                            (case arg_swagger_base_path a of Some p \<Rightarrow> p | None \<Rightarrow> [])
                            (str_or (lib_urlparse_path lib url) ''/'');
                          fixed_base_path = rstrip CHR ''/'' base @ ''/''
                      in (Inr \<lparr>ignore_undefined_routes = arg_ignore_undefined_api_routes a,
                               auto_jsonify = arg_auto_jsonify a,
                               invalid_request_handler = arg_invalid_request_handler a,
                               invalid_response_handler = arg_invalid_response_handler a,
                               swagger_op_not_found_handler = arg_swagger_op_not_found_handler a,
                               exception_handler = arg_exception_handler a,
                               serve_swagger_schema = serve_schema,
                               serve_swagger_ui = arg_serve_swagger_ui a,
                               swagger_ui_validator_url = arg_swagger_ui_validator_url a,
                               swagger_schema_suburl = arg_swagger_schema_suburl a,
                               swagger_ui_suburl = arg_swagger_ui_suburl a,
                               bravado_config = config,
                               swagger = \<lparr>spec_dict = swagger_def, api_url = url\<rparr>,
                               swagger_base_path = base,
                               adjust_api_base_path = arg_adjust_api_base_path a,
                               swagger_schema_url =
                                 lib_urljoin lib fixed_base_path
                                   (lstrip CHR ''/'' (arg_swagger_schema_suburl a)),
                               swagger_ui_base_url =
                                 lib_urljoin lib fixed_base_path
                                   (lstrip CHR ''/'' (arg_swagger_ui_suburl a))\<rparr>,
                          h2[swagger_def := d]))))"

section \<open>The endpoints the plugin adds\<close>






section \<open>The intercept routine\<close>

text \<open>\<open>_swagger_op\<close>: translate the rule, then look the operation up.\<close>

definition swagger_op ::
  "'s plugin \<Rightarrow> 's library \<Rightarrow> route \<Rightarrow> 's traced \<Rightarrow> (exn + operation option) \<times> 's traced" where
  "swagger_op self lib r st =
     (let path = re_sub (rule r);
          m = request_method (fst st)
      in call (GetOpForRequest m path) (lib_get_op_for_request lib (swagger self) m path) st)"

text \<open>\<open>_validate_request\<close>\<close>

definition validate_request ::
  "'s library \<Rightarrow> operation \<Rightarrow> 's traced \<Rightarrow> (exn + pyval) \<times> 's traced" where
  "validate_request lib op st = call UnmarshalRequest (lib_unmarshal_request lib op) st"

text \<open>\<open>_validate_response\<close>: the response specification for the status set so far, then the check.\<close>

definition validate_response ::
  "'s library \<Rightarrow> operation \<Rightarrow> pyval \<Rightarrow> 's traced \<Rightarrow> (exn + unit) \<times> 's traced" where
  "validate_response lib op result st =
     (let status = response_status (fst st) in
      case call (GetResponseSpec status) (lib_get_response_spec lib status op) st of
        (Inl e, st1) \<Rightarrow> (Inl e, st1)
      | (Inr response_spec, st1) \<Rightarrow>
          call ValidateResponse (lib_validate_response lib response_spec op result) st1)"

text \<open>
  The body of the \<open>try\<close> statement of \<open>_swagger_validate\<close> (source lines 300 to 316): what it
  returns, or the exception that leaves it.
\<close>

definition try_body ::
  "'s plugin \<Rightarrow> 's library \<Rightarrow> ('s, pyval) action \<Rightarrow> operation \<Rightarrow> 's traced
     \<Rightarrow> (exn + pyval) \<times> 's traced" where
  "try_body self lib callback op st =
     (let st0 = (fst st\<lparr>request_swagger_op := Some op\<rparr>, snd st) in
      case validate_request lib op st0 of
        (Inl e, st1) \<Rightarrow>
          if is_ValidationError e
          then call InvalidRequestHandler (invalid_request_handler self e) st1
          else (Inl e, st1)
      | (Inr data, st1) \<Rightarrow>
          (let st2 = (fst st1\<lparr>request_swagger_data := Some data\<rparr>, snd st1) in
           case call Callback callback st2 of
             (Inl e, st3) \<Rightarrow> (Inl e, st3)
           | (Inr result, st3) \<Rightarrow>
               (case validate_response lib op result st3 of
                  (Inl e, st4) \<Rightarrow>
                    if is_ValidationError e \<or> is_MatchingResponseNotFound e
                    then call InvalidResponseHandler (invalid_response_handler self e) st4
                    else (Inl e, st4)
                | (Inr u, st4) \<Rightarrow>
                    if auto_jsonify self \<and> is_dict_or_list result
                    then (case lib_json_dumps lib result of
                            Inl e \<Rightarrow> (Inl e, (fst st4, snd st4 @ [JsonDumps]))
                          | Inr body \<Rightarrow>
                              (Inr (PStr body),
                               (fst st4\<lparr>response_content_type := ''application/json''\<rparr>,
                                snd st4 @ [JsonDumps])))
                    else (Inr result, st4))))"

text \<open>
  The clause \<open>except Exception as e\<close> (source lines 317 to 322) around that body: an
  \<open>HTTPResponse\<close> is raised again, any other \<open>Exception\<close> goes to the exception handler, and
  what is not an \<open>Exception\<close> is not caught.
\<close>

definition except_Exception ::
  "'s plugin \<Rightarrow> (exn + pyval) \<times> 's traced \<Rightarrow> (exn + pyval) \<times> 's traced" where
  "except_Exception self outcome =
     (case outcome of
        (Inr v, st) \<Rightarrow> (Inr v, st)
      | (Inl e, st) \<Rightarrow>
          if is_Exception e then
            (if is_HTTPResponse e then (Inl e, st)
             else call ExceptionHandler (exception_handler self e) st)
          else (Inl e, st))"

text \<open>
  \<open>_swagger_validate(callback, route, *args, **kwargs)\<close>; \<open>callback\<close> stands for
  \<open>callback(*args, **kwargs)\<close>.
\<close>

definition swagger_validate ::
  "'s plugin \<Rightarrow> 's library \<Rightarrow> ('s, pyval) action \<Rightarrow> route \<Rightarrow> 's traced
     \<Rightarrow> (exn + pyval) \<times> 's traced" where
  "swagger_validate self lib callback r st =
     (case swagger_op self lib r st of
        (Inl e, st1) \<Rightarrow> (Inl e, st1)
      | (Inr None, st1) \<Rightarrow>
          if \<not> startswith (rule r) (swagger_base_path self) \<or> ignore_undefined_routes self
          then call Callback callback st1
          else if serve_swagger_schema self \<and> rule r = swagger_schema_url self
          then call Callback callback st1
          else if serve_swagger_ui self \<and> startswith (rule r) (swagger_ui_base_url self)
          then call Callback callback st1
          else call SwaggerOpNotFoundHandler (swagger_op_not_found_handler self r) st1
      | (Inr (Some op), st1) \<Rightarrow> except_Exception self (try_body self lib callback op st1))"


section \<open>A small application\<close>

text \<open>
  A pet store, to run the definitions on. The handlers of the application keep a log of
  what they wrote, which is the state \<open>app\<close>.
\<close>

definition petstore :: pydict where
  "petstore =
     [(''swagger'', PStr ''2.0''),
      (''basePath'', PStr ''/api''),
      (''paths'', PDict [(''/pets/{id}'', PDict [(''get'', PDict [(''operationId'', PStr ''getPet'')])])])]"

text \<open>
  Stand-ins for the libraries: the specification's URL is its base path, \<open>urljoin\<close> is
  right for a base ending in a slash and a reference without dots, the only operation is
  \<open>GET /api/pets/{id}\<close>, a request is valid when its log is not \<open>[''bad request'']\<close>, only
  status 200 has a response specification, and a response is valid unless it is \<open>None\<close>.
\<close>

definition demo_lib :: "string list library" where
  "demo_lib =
     \<lparr>lib_from_dict = (\<lambda>d config.
        (case map_of d ''basePath'' of Some (PStr p) \<Rightarrow> Inr p | _ \<Rightarrow> Inr [], d)),
      lib_get_op_for_request = (\<lambda>sp m path w.
        (Inr (if m = ''GET'' \<and> path = ''/api/pets/{id}'' then Some ''getPet'' else None), w)),
      lib_unmarshal_request = (\<lambda>op w.
        (if app w = [''bad request''] then Inl (ValidationError ''id is required'')
         else Inr (PDict [(''id'', PInt 7)]), w)),
      lib_get_response_spec = (\<lambda>status op w.
        (if status = 200 then Inr (PStr ''200'')
         else Inl (MatchingResponseNotFound ''no response for status''), w)),
      lib_validate_response = (\<lambda>rs op result w.
        (if result = PNone then Inl (ValidationError ''None is not of type object'')
         else Inr (), w)),
      lib_json_dumps = (\<lambda>v.
        if v = PDict [(''id'', PInt 7)] then Inr (CHR ''{'' # CHR 0x22 # ''id'' @ CHR 0x22 # '': 7}'')
        else Inl (OtherException ''not JSON serializable'')),
      lib_urljoin = (\<lambda>base url. if startswith url ''/'' then url else base @ url),
      lib_urlparse_path = (\<lambda>url. url),
      lib_get_url = (\<lambda>url. url),
      lib_render_index_html = (\<lambda>url validator w. (Inr (PStr ''<html>''), w)),
      lib_static_file = (\<lambda>path w. (Inr (PObj ''file''), w))\<rparr>"

text \<open>
  The plugin \<open>SwaggerPlugin(petstore)\<close> with every option at its default, the world at
  the start of a request, two routes and three handlers.
\<close>

definition demo_plugin :: "string list plugin" where
  "demo_plugin =
     \<lparr>ignore_undefined_routes = False,
      auto_jsonify = True,
      invalid_request_handler = default_bad_request_handler,
      invalid_response_handler = default_server_error_handler,
      swagger_op_not_found_handler = default_not_found_handler,
      exception_handler = default_server_error_handler,
      serve_swagger_schema = True,
      serve_swagger_ui = False,
      swagger_ui_validator_url = None,
      swagger_schema_suburl = ''/swagger.json'',
      swagger_ui_suburl = ''/ui/'',
      bravado_config =
        [(''validate_swagger_spec'', PBool True),
         (''validate_requests'', PBool True),
         (''validate_responses'', PBool True),
         (''use_models'', PBool True),
         (''formats'', PList []),
         (''include_missing_properties'', PBool True),
         (''default_type_to_object'', PBool False),
         (''internally_dereference_refs'', PBool False)],
      swagger = \<lparr>spec_dict = 1, api_url = ''/api''\<rparr>,
      swagger_base_path = ''/api'',
      adjust_api_base_path = True,
      swagger_schema_url = ''/api/swagger.json'',
      swagger_ui_base_url = ''/api/ui/''\<rparr>"

definition demo_world :: "string list world" where
  "demo_world =
     \<lparr>heap = [petstore, petstore],
      request_method = ''GET'',
      request_script_name = None,
      request_swagger_op = None,
      request_swagger_data = None,
      response_status = 200,
      response_content_type = ''text/html; charset=UTF-8'',
      app = []\<rparr>"

definition pet_route :: route where
  "pet_route = \<lparr>rule = ''/api/pets/<id:int>'', route_str = ''<GET /api/pets/<id:int>>''\<rparr>"


definition health_route :: route where
  "health_route = \<lparr>rule = ''/health'', route_str = ''<GET /health>''\<rparr>"

definition get_pet :: "(string list, pyval) action" where
  "get_pet w = (Inr (PDict [(''id'', PInt 7)]), w\<lparr>app := app w @ [''read pet 7'']\<rparr>)"




section \<open>Path-pattern translation: properties\<close>

text \<open>
  C4. The claim: translation rewrites every placeholder segment \<open>/<id>\<close> or \<open>/<id:int>\<close>
  to \<open>/{id}\<close> and leaves literal segments unchanged, also in rules with several
  placeholders and type modifiers. That holds for a single placeholder and when only the
  last placeholder has a modifier. On the rule \<open>/pets/<id:int>/toys/<toy_id>\<close> the code
  gives \<open>/pets/{id}\<close>: the modifier's greedy \<open>.+\<close> runs to the last \<open>>\<close> of the rule, so
  the literal segment \<open>/toys\<close> and the second placeholder are lost.
\<close>

theorem re_sub_modifier_runs_to_last_gt:
  "re_sub ''/pets/<id>'' = ''/pets/{id}''
   \<and> re_sub ''/pets/<id:int>'' = ''/pets/{id}''
   \<and> re_sub ''/pets/<id>/toys/<toy_id:int>'' = ''/pets/{id}/toys/{toy_id}''
   \<and> re_sub ''/pets/<id:int>/toys/<toy_id>'' = ''/pets/{id}''"
  by (simp add: dot_def)

section \<open>Construction: properties\<close>

text \<open>
  C7. The claim: construction succeeds for every well-formed document under every
  combination of the options, in particular of the two toggles serve-schema and serve-UI.
  With \<open>serve_swagger_schema=False\<close> the code raises \<open>AttributeError\<close> whatever the
  document and the other options are: source line 232 reads \<open>self.serve_swagger_ui\<close>, which
  line 233 assigns.
\<close>

theorem init_without_serve_schema_raises:
  "fst (init (a\<lparr>arg_serve_swagger_schema := False\<rparr>) lib h) = Inl (AttributeError ''serve_swagger_ui'')"
  by (simp add: init_def Let_def py_or_def getattr_def)

lemma init_heap: "\<exists>x. snd (init a lib h) = h @ [x]"
proof (cases "arg_serve_swagger_schema a")
  case False
  then show ?thesis
    by (cases "arg_swagger_base_path a") (simp_all add: init_def Let_def py_or_def getattr_def)
next
  case True
  show ?thesis
  proof (cases "arg_swagger_base_path a")
    case None
    with True show ?thesis
      by (simp add: init_def Let_def py_or_def split: prod.split sum.split)
  next
    case (Some p)
    with True show ?thesis
      by (simp add: init_def Let_def py_or_def split: prod.split sum.split)
  qed
qed

lemma init_heap_prefix: "take (length h) (snd (init a lib h)) = h"
proof -
  obtain x where "snd (init a lib h) = h @ [x]"
    using init_heap by blast
  then show ?thesis by simp
qed

lemma init_spec_dict: "fst (init a lib h) = Inr self \<Longrightarrow> spec_dict (swagger self) = length h"
  by (cases "arg_serve_swagger_schema a")
     (auto simp add: init_def Let_def py_or_def getattr_def split: prod.splits sum.splits)

text \<open>
  The other half of C7 holds: when \<open>Spec.from_dict\<close> raises (a malformed document, or one
  that fails the structural validation), so does the constructor.
\<close>

lemma init_raises_when_from_dict_raises:
  assumes raises: "\<And>d config. \<exists>e d'. lib_from_dict lib d config = (Inl e, d')"
  shows "\<exists>e. fst (init a lib h) = Inl e"
proof (cases "arg_serve_swagger_schema a")
  case False
  then show ?thesis
    by (simp add: init_def Let_def py_or_def getattr_def)
next
  case True
  have "\<And>d config. case lib_from_dict lib d config of (Inl e, d') \<Rightarrow> True | (Inr u, d') \<Rightarrow> False"
  proof -
    fix d config
    from raises [of d config] obtain e d' where "lib_from_dict lib d config = (Inl e, d')"
      by blast
    then show "case lib_from_dict lib d config of (Inl e, d') \<Rightarrow> True | (Inr u, d') \<Rightarrow> False"
      by simp
  qed
  then have no: "\<And>d config u d'. lib_from_dict lib d config \<noteq> (Inr u, d')"
    by (metis (mono_tags, lifting) case_prod_conv sum.case(2))
  show ?thesis
    using True no
    by (simp add: init_def Let_def py_or_def split: prod.split sum.split)
qed

text \<open>
  C10. Construction leaves the caller's dictionary as it was, and every other dictionary
  that existed: the base-path override and whatever \<open>Spec.from_dict\<close> writes go to the
  copy, a new object, which is the one the plugin keeps.
\<close>

theorem init_leaves_caller_dict:
  assumes "arg_swagger_def a < length h"
  shows "snd (init a lib h) ! arg_swagger_def a = h ! arg_swagger_def a
       \<and> take (length h) (snd (init a lib h)) = h
       \<and> (\<forall>self. fst (init a lib h) = Inr self \<longrightarrow> spec_dict (swagger self) = length h)"
proof -
  have p: "take (length h) (snd (init a lib h)) = h"
    by (rule init_heap_prefix)
  have "snd (init a lib h) ! arg_swagger_def a
          = take (length h) (snd (init a lib h)) ! arg_swagger_def a"
    using assms by simp
  with p have 1: "snd (init a lib h) ! arg_swagger_def a = h ! arg_swagger_def a"
    by simp
  have 3: "\<forall>self. fst (init a lib h) = Inr self \<longrightarrow> spec_dict (swagger self) = length h"
    using init_spec_dict by blast
  from 1 p 3 show ?thesis by blast
qed

theorem init_leaves_caller_dict_witness:
  "(0::nat) < length [petstore]
   \<and> snd (init ((default_args 0)\<lparr>arg_swagger_base_path := Some ''/v2''\<rparr>) demo_lib [petstore]) ! 0
       = petstore
   \<and> snd (init ((default_args 0)\<lparr>arg_swagger_base_path := Some ''/v2''\<rparr>) demo_lib [petstore]) ! 1
       = dict_set petstore ''basePath'' (PStr ''/v2'')
   \<and> map_of (dict_set petstore ''basePath'' (PStr ''/v2'')) ''basePath'' = Some (PStr ''/v2'')
   \<and> map_of petstore ''basePath'' = Some (PStr ''/api'')"
proof -
  have h: "arg_swagger_def
             ((default_args 0)\<lparr>arg_swagger_base_path := Some ''/v2''\<rparr> :: string list init_args)
           < length [petstore]"
    by (simp add: default_args_def)
  have c: "snd (init ((default_args 0)\<lparr>arg_swagger_base_path := Some ''/v2''\<rparr>) demo_lib [petstore]) ! 1
             = dict_set petstore ''basePath'' (PStr ''/v2'')"
    by (simp add: init_def Let_def default_args_def py_or_def demo_lib_def petstore_def)
  have m: "map_of (dict_set petstore ''basePath'' (PStr ''/v2'')) ''basePath'' = Some (PStr ''/v2'')
           \<and> map_of petstore ''basePath'' = Some (PStr ''/api'')"
    by (simp add: petstore_def)
  from init_leaves_caller_dict [OF h, of demo_lib] c m show ?thesis
    by (simp add: default_args_def)
qed


section \<open>The intercept routine: properties\<close>

lemma call_eq: "f w = (res, w1) \<Longrightarrow> call ev f (w, t) = (res, (w1, t @ [ev]))"
  by (simp add: call_def)

lemma swagger_op_eq:
  "lib_get_op_for_request lib (swagger self) (request_method w) (re_sub (rule r)) w = (res, w1)
   \<Longrightarrow> swagger_op self lib r (w, t)
       = (res, (w1, t @ [GetOpForRequest (request_method w) (re_sub (rule r))]))"
  by (simp add: swagger_op_def Let_def call_def)

lemma swagger_validate_found:
  "lib_get_op_for_request lib (swagger self) (request_method w) (re_sub (rule r)) w
     = (Inr (Some op), w1)
   \<Longrightarrow> swagger_validate self lib callback r (w, t)
       = except_Exception self
           (try_body self lib callback op
              (w1, t @ [GetOpForRequest (request_method w) (re_sub (rule r))]))"
  by (simp add: swagger_validate_def swagger_op_eq)

lemma except_Exception_trace:
  "snd (snd (except_Exception self (res, (w, t)))) = t
   \<or> snd (snd (except_Exception self (res, (w, t)))) = t @ [ExceptionHandler]"
  by (cases res) (auto simp add: except_Exception_def call_def split: prod.splits)

lemma try_body_invalid_request:
  "lib_unmarshal_request lib op (w1\<lparr>request_swagger_op := Some op\<rparr>)
     = (Inl (ValidationError msg), w2)
   \<Longrightarrow> try_body self lib callback op (w1, t)
       = call InvalidRequestHandler (invalid_request_handler self (ValidationError msg))
           (w2, t @ [UnmarshalRequest])"
  by (simp add: try_body_def validate_request_def call_eq)

lemma re_sub_pet_route: "re_sub (rule pet_route) = ''/api/pets/{id}''"
  by (simp add: pet_route_def dot_def)

lemma re_sub_health_route: "re_sub (rule health_route) = ''/health''"
  by (simp add: health_route_def dot_def)

lemma demo_found:
  "lib_get_op_for_request demo_lib (swagger demo_plugin) (request_method demo_world)
     (re_sub (rule pet_route)) demo_world = (Inr (Some ''getPet''), demo_world)"
  unfolding re_sub_pet_route by (simp add: demo_lib_def demo_world_def)

lemma demo_good:
  "lib_unmarshal_request demo_lib ''getPet'' (demo_world\<lparr>request_swagger_op := Some ''getPet''\<rparr>)
     = (Inr (PDict [(''id'', PInt 7)]), demo_world\<lparr>request_swagger_op := Some ''getPet''\<rparr>)"
  by (simp add: demo_lib_def demo_world_def)

lemma demo_missing:
  "lib_get_op_for_request demo_lib (swagger demo_plugin) (request_method demo_world)
     (re_sub (rule health_route)) demo_world = (Inr None, demo_world)"
  unfolding re_sub_health_route by (simp add: demo_lib_def demo_world_def)

text \<open>
  C1. When the route resolves to an operation and unmarshalling the request raises a
  validation error, the callback is not called, whatever the invalid-request handler does;
  when that handler returns, its result is the result of the routine; with the default
  handler that is the payload \<open>{"code": 400, "message": str(e)}\<close> and the status is 400.
\<close>

theorem invalid_request_never_reaches_callback:
  assumes found: "lib_get_op_for_request lib (swagger self) (request_method w) (re_sub (rule r)) w
                    = (Inr (Some op), w1)"
      and bad: "lib_unmarshal_request lib op (w1\<lparr>request_swagger_op := Some op\<rparr>)
                    = (Inl (ValidationError msg), w2)"
  shows "Callback \<notin> set (snd (snd (swagger_validate self lib callback r (w, []))))
       \<and> (\<forall>v w3. invalid_request_handler self (ValidationError msg) w2 = (Inr v, w3) \<longrightarrow>
             swagger_validate self lib callback r (w, [])
               = (Inr v, (w3, [GetOpForRequest (request_method w) (re_sub (rule r)),
                               UnmarshalRequest, InvalidRequestHandler])))
       \<and> (invalid_request_handler self = default_bad_request_handler \<longrightarrow>
             swagger_validate self lib callback r (w, [])
               = (Inr (PDict [(''code'', PInt 400), (''message'', PStr msg)]),
                  (w2\<lparr>response_status := 400\<rparr>,
                   [GetOpForRequest (request_method w) (re_sub (rule r)),
                    UnmarshalRequest, InvalidRequestHandler])))"
proof -
  let ?G = "GetOpForRequest (request_method w) (re_sub (rule r))"
  let ?h = "invalid_request_handler self (ValidationError msg)"
  have sv: "swagger_validate self lib callback r (w, [])
              = except_Exception self (call InvalidRequestHandler ?h (w2, [?G, UnmarshalRequest]))"
    using swagger_validate_found [OF found, of callback "[]"] try_body_invalid_request [OF bad]
    by simp
  obtain res w3 where h: "?h w2 = (res, w3)"
    by (cases "?h w2") auto
  have c: "call InvalidRequestHandler ?h (w2, [?G, UnmarshalRequest])
             = (res, (w3, [?G, UnmarshalRequest, InvalidRequestHandler]))"
    by (simp add: call_def h)
  have 1: "Callback \<notin> set (snd (snd (swagger_validate self lib callback r (w, []))))"
    using except_Exception_trace [of self res w3 "[?G, UnmarshalRequest, InvalidRequestHandler]"]
    unfolding sv c by auto
  have 2: "\<forall>v w3. ?h w2 = (Inr v, w3) \<longrightarrow>
             swagger_validate self lib callback r (w, [])
               = (Inr v, (w3, [?G, UnmarshalRequest, InvalidRequestHandler]))"
    unfolding sv by (simp add: call_def except_Exception_def)
  have 3: "invalid_request_handler self = default_bad_request_handler \<longrightarrow>
             swagger_validate self lib callback r (w, [])
               = (Inr (PDict [(''code'', PInt 400), (''message'', PStr msg)]),
                  (w2\<lparr>response_status := 400\<rparr>, [?G, UnmarshalRequest, InvalidRequestHandler]))"
    unfolding sv
    by (simp add: call_def except_Exception_def default_bad_request_handler_def error_response_def)
  from 1 2 3 show ?thesis by blast
qed

theorem invalid_request_never_reaches_callback_witness:
  "lib_get_op_for_request demo_lib (swagger demo_plugin)
      (request_method (demo_world\<lparr>app := [''bad request'']\<rparr>)) (re_sub (rule pet_route))
      (demo_world\<lparr>app := [''bad request'']\<rparr>)
     = (Inr (Some ''getPet''), demo_world\<lparr>app := [''bad request'']\<rparr>)
   \<and> lib_unmarshal_request demo_lib ''getPet''
        (demo_world\<lparr>app := [''bad request''], request_swagger_op := Some ''getPet''\<rparr>)
     = (Inl (ValidationError ''id is required''),
        demo_world\<lparr>app := [''bad request''], request_swagger_op := Some ''getPet''\<rparr>)
   \<and> swagger_validate demo_plugin demo_lib get_pet pet_route
        (demo_world\<lparr>app := [''bad request'']\<rparr>, [])
     = (Inr (PDict [(''code'', PInt 400), (''message'', PStr ''id is required'')]),
        (demo_world\<lparr>app := [''bad request''], request_swagger_op := Some ''getPet'',
                     response_status := 400\<rparr>,
         [GetOpForRequest ''GET'' ''/api/pets/{id}'', UnmarshalRequest, InvalidRequestHandler]))"
proof -
  let ?w = "demo_world\<lparr>app := [''bad request'']\<rparr>"
  have r: "re_sub (rule pet_route) = ''/api/pets/{id}''"
    by (simp add: pet_route_def dot_def)
  have m: "request_method ?w = ''GET''"
    by (simp add: demo_world_def)
  have found: "lib_get_op_for_request demo_lib (swagger demo_plugin) (request_method ?w)
                 (re_sub (rule pet_route)) ?w = (Inr (Some ''getPet''), ?w)"
    unfolding r m by (simp add: demo_lib_def)
  have bad: "lib_unmarshal_request demo_lib ''getPet'' (?w\<lparr>request_swagger_op := Some ''getPet''\<rparr>)
               = (Inl (ValidationError ''id is required''), ?w\<lparr>request_swagger_op := Some ''getPet''\<rparr>)"
    by (simp add: demo_lib_def demo_world_def)
  have d: "invalid_request_handler demo_plugin = default_bad_request_handler"
    by (simp add: demo_plugin_def)
  from invalid_request_never_reaches_callback [OF found bad, of get_pet] d found bad
  show ?thesis
    unfolding r m by simp
qed


lemma try_body_valid_response:
  "lib_unmarshal_request lib op (w1\<lparr>request_swagger_op := Some op\<rparr>) = (Inr data, w2)
   \<Longrightarrow> callback (w2\<lparr>request_swagger_data := Some data\<rparr>) = (Inr result, w3)
   \<Longrightarrow> validate_response lib op result (w3, t @ [UnmarshalRequest, Callback]) = (Inr u, (w4, t4))
   \<Longrightarrow> try_body self lib callback op (w1, t)
       = (if auto_jsonify self \<and> is_dict_or_list result
          then (case lib_json_dumps lib result of
                  Inl e \<Rightarrow> (Inl e, (w4, t4 @ [JsonDumps]))
                | Inr body \<Rightarrow>
                    (Inr (PStr body),
                     (w4\<lparr>response_content_type := ''application/json''\<rparr>, t4 @ [JsonDumps])))
          else (Inr result, (w4, t4)))"
  by (simp add: try_body_def validate_request_def call_def split: sum.split)




text \<open>
  C8. When the response passes validation: with \<open>auto_jsonify\<close> set and a result that is
  a dict or a list, the routine returns the text \<open>json_dumps\<close> gives for the result and
  sets the content type to \<open>application/json\<close>; otherwise it returns the callback's
  result unchanged and leaves the content type alone.
\<close>

theorem auto_jsonify_serializes_dict_and_list:
  assumes found: "lib_get_op_for_request lib (swagger self) (request_method w) (re_sub (rule r)) w
                    = (Inr (Some op), w1)"
      and good: "lib_unmarshal_request lib op (w1\<lparr>request_swagger_op := Some op\<rparr>) = (Inr data, w2)"
      and ran: "callback (w2\<lparr>request_swagger_data := Some data\<rparr>) = (Inr result, w3)"
      and valid: "validate_response lib op result
                    (w3, [GetOpForRequest (request_method w) (re_sub (rule r)),
                          UnmarshalRequest, Callback])
                  = (Inr u, (w4, t4))"
  shows "(auto_jsonify self \<and> is_dict_or_list result \<longrightarrow>
            (\<forall>body. lib_json_dumps lib result = Inr body \<longrightarrow>
               swagger_validate self lib callback r (w, [])
                 = (Inr (PStr body),
                    (w4\<lparr>response_content_type := ''application/json''\<rparr>, t4 @ [JsonDumps]))))
       \<and> (\<not> (auto_jsonify self \<and> is_dict_or_list result) \<longrightarrow>
            swagger_validate self lib callback r (w, []) = (Inr result, (w4, t4)))"
proof -
  let ?G = "GetOpForRequest (request_method w) (re_sub (rule r))"
  note body = try_body_valid_response
                [where callback = callback and t = "[?G]" and self = self, OF good ran]
  have sv: "swagger_validate self lib callback r (w, [])
              = except_Exception self (try_body self lib callback op (w1, [?G]))"
    using swagger_validate_found [OF found, of callback "[]"] by simp
  have 1: "auto_jsonify self \<and> is_dict_or_list result \<longrightarrow>
            (\<forall>body. lib_json_dumps lib result = Inr body \<longrightarrow>
               swagger_validate self lib callback r (w, [])
                 = (Inr (PStr body),
                    (w4\<lparr>response_content_type := ''application/json''\<rparr>, t4 @ [JsonDumps])))"
    unfolding sv using body valid by (simp add: except_Exception_def)
  have 2: "\<not> (auto_jsonify self \<and> is_dict_or_list result) \<longrightarrow>
            swagger_validate self lib callback r (w, []) = (Inr result, (w4, t4))"
    unfolding sv using body valid by (auto simp add: except_Exception_def)
  from 1 2 show ?thesis by blast
qed

theorem auto_jsonify_serializes_dict_and_list_witness:
  "swagger_validate demo_plugin demo_lib get_pet pet_route (demo_world, [])
     = (Inr (PStr (CHR ''{'' # CHR 0x22 # ''id'' @ CHR 0x22 # '': 7}'')),
        (demo_world\<lparr>request_swagger_op := Some ''getPet'',
                     request_swagger_data := Some (PDict [(''id'', PInt 7)]),
                     app := [''read pet 7''],
                     response_content_type := ''application/json''\<rparr>,
         [GetOpForRequest ''GET'' ''/api/pets/{id}'', UnmarshalRequest, Callback,
          GetResponseSpec 200, ValidateResponse, JsonDumps]))
   \<and> swagger_validate (demo_plugin\<lparr>auto_jsonify := False\<rparr>) demo_lib get_pet pet_route
        (demo_world, [])
     = (Inr (PDict [(''id'', PInt 7)]),
        (demo_world\<lparr>request_swagger_op := Some ''getPet'',
                     request_swagger_data := Some (PDict [(''id'', PInt 7)]),
                     app := [''read pet 7'']\<rparr>,
         [GetOpForRequest ''GET'' ''/api/pets/{id}'', UnmarshalRequest, Callback,
          GetResponseSpec 200, ValidateResponse]))"
proof -
  let ?w2 = "demo_world\<lparr>request_swagger_op := Some ''getPet''\<rparr>"
  let ?w3 = "demo_world\<lparr>request_swagger_op := Some ''getPet'',
                         request_swagger_data := Some (PDict [(''id'', PInt 7)]),
                         app := [''read pet 7'']\<rparr>"
  let ?G = "GetOpForRequest (request_method demo_world) (re_sub (rule pet_route))"
  let ?off = "demo_plugin\<lparr>auto_jsonify := False\<rparr>"
  have ran: "get_pet (?w2\<lparr>request_swagger_data := Some (PDict [(''id'', PInt 7)])\<rparr>)
               = (Inr (PDict [(''id'', PInt 7)]), ?w3)"
    by (simp add: get_pet_def demo_world_def)
  have valid: "validate_response demo_lib ''getPet'' (PDict [(''id'', PInt 7)])
                 (?w3, [?G, UnmarshalRequest, Callback])
                 = (Inr (), (?w3, [?G, UnmarshalRequest, Callback, GetResponseSpec 200,
                                    ValidateResponse]))"
    by (simp add: validate_response_def Let_def call_def demo_lib_def demo_world_def)
  have G: "?G = GetOpForRequest ''GET'' ''/api/pets/{id}''"
    unfolding re_sub_pet_route by (simp add: demo_world_def)
  have on: "auto_jsonify demo_plugin \<and> is_dict_or_list (PDict [(''id'', PInt 7)])"
    by (simp add: demo_plugin_def)
  have dumps: "lib_json_dumps demo_lib (PDict [(''id'', PInt 7)])
                 = Inr (CHR ''{'' # CHR 0x22 # ''id'' @ CHR 0x22 # '': 7}'')"
    by (simp add: demo_lib_def)
  have found_off: "lib_get_op_for_request demo_lib (swagger ?off) (request_method demo_world)
     (re_sub (rule pet_route)) demo_world = (Inr (Some ''getPet''), demo_world)"
    using demo_found by simp
  have off: "\<not> (auto_jsonify ?off \<and> is_dict_or_list (PDict [(''id'', PInt 7)]))"
    by simp
  from auto_jsonify_serializes_dict_and_list
         [where callback = get_pet and self = demo_plugin, OF demo_found demo_good ran valid]
       on dumps
  have 1: "swagger_validate demo_plugin demo_lib get_pet pet_route (demo_world, [])
     = (Inr (PStr (CHR ''{'' # CHR 0x22 # ''id'' @ CHR 0x22 # '': 7}'')),
        (?w3\<lparr>response_content_type := ''application/json''\<rparr>,
         [?G, UnmarshalRequest, Callback, GetResponseSpec 200, ValidateResponse] @ [JsonDumps]))"
    by blast
  from auto_jsonify_serializes_dict_and_list
         [where callback = get_pet and self = ?off, OF found_off demo_good ran valid] off
  have 2: "swagger_validate ?off demo_lib get_pet pet_route (demo_world, [])
     = (Inr (PDict [(''id'', PInt 7)]),
        (?w3, [?G, UnmarshalRequest, Callback, GetResponseSpec 200, ValidateResponse]))"
    by blast
  from 1 2 show ?thesis
    unfolding G by simp
qed

lemma swagger_validate_missing:
  "lib_get_op_for_request lib (swagger self) (request_method w) (re_sub (rule r)) w = (Inr None, w1)
   \<Longrightarrow> \<not> startswith (rule r) (swagger_base_path self) \<or> ignore_undefined_routes self
   \<Longrightarrow> swagger_validate self lib callback r (w, t)
       = (fst (callback w1),
          (snd (callback w1), t @ [GetOpForRequest (request_method w) (re_sub (rule r)), Callback]))"
  by (cases "callback w1") (auto simp add: swagger_validate_def swagger_op_eq call_def)

text \<open>
  C6. With \<open>ignore_undefined_routes\<close> set and no operation found, the routine is the
  lookup followed by the callback and nothing else: it returns or raises what the callback
  returns or raises, in the world the callback left, and the only calls made are the lookup
  and the callback (no validation, no handler, no serialization).
\<close>

theorem ignore_undefined_routes_forwards:
  assumes ignore: "ignore_undefined_routes self"
      and missing: "lib_get_op_for_request lib (swagger self) (request_method w) (re_sub (rule r)) w
                      = (Inr None, w1)"
  shows "swagger_validate self lib callback r (w, [])
           = (fst (callback w1),
              (snd (callback w1),
               [GetOpForRequest (request_method w) (re_sub (rule r)), Callback]))"
  using swagger_validate_missing [OF missing, of callback "[]"] ignore by simp

theorem ignore_undefined_routes_forwards_witness:
  "swagger_validate (demo_plugin\<lparr>ignore_undefined_routes := True\<rparr>) demo_lib get_pet
     \<lparr>rule = ''/api/toys'', route_str = ''<GET /api/toys>''\<rparr> (demo_world, [])
     = (Inr (PDict [(''id'', PInt 7)]),
        (demo_world\<lparr>app := [''read pet 7'']\<rparr>,
         [GetOpForRequest ''GET'' ''/api/toys'', Callback]))"
proof -
  let ?self = "demo_plugin\<lparr>ignore_undefined_routes := True\<rparr>"
  let ?r = "\<lparr>rule = ''/api/toys'', route_str = ''<GET /api/toys>''\<rparr>"
  have r: "re_sub (rule ?r) = ''/api/toys''"
    by (simp add: dot_def)
  have ignore: "ignore_undefined_routes ?self"
    by simp
  have missing: "lib_get_op_for_request demo_lib (swagger ?self) (request_method demo_world)
                   (re_sub (rule ?r)) demo_world = (Inr None, demo_world)"
    unfolding r by (simp add: demo_lib_def demo_world_def)
  from ignore_undefined_routes_forwards [where callback = get_pet, OF ignore missing]
  show ?thesis
    unfolding r by (simp add: get_pet_def demo_world_def)
qed

text \<open>
  C5, as amended. For a route whose rule does not begin with the base path, the routine
  still looks the operation up first; when the lookup finds none, the routine is the
  callback and nothing else: no validation and no handler is called.
\<close>

theorem outside_base_path_forwards_after_lookup:
  assumes outside: "\<not> startswith (rule r) (swagger_base_path self)"
      and missing: "lib_get_op_for_request lib (swagger self) (request_method w) (re_sub (rule r)) w
                      = (Inr None, w1)"
  shows "swagger_validate self lib callback r (w, [])
           = (fst (callback w1),
              (snd (callback w1),
               [GetOpForRequest (request_method w) (re_sub (rule r)), Callback]))"
  using swagger_validate_missing [OF missing, of callback "[]"] outside by simp

theorem outside_base_path_forwards_after_lookup_witness:
  "\<not> startswith (rule health_route) (swagger_base_path demo_plugin)
   \<and> swagger_validate demo_plugin demo_lib get_pet health_route (demo_world, [])
     = (Inr (PDict [(''id'', PInt 7)]),
        (demo_world\<lparr>app := [''read pet 7'']\<rparr>, [GetOpForRequest ''GET'' ''/health'', Callback]))"
proof -
  have outside: "\<not> startswith (rule health_route) (swagger_base_path demo_plugin)"
    by (simp add: startswith_def health_route_def demo_plugin_def)
  from outside_base_path_forwards_after_lookup [where callback = get_pet, OF outside demo_missing]
       outside
  show ?thesis
    unfolding re_sub_health_route by (simp add: get_pet_def demo_world_def)
qed

text \<open>
  C5 as it is claimed (no schema lookup for a route outside the base path) fails: for the
  route \<open>/health\<close>, outside the base path \<open>/api\<close>, the first call the routine makes is
  the lookup.
\<close>

theorem lookup_precedes_base_path_test:
  "\<not> startswith (rule health_route) (swagger_base_path demo_plugin)
   \<and> snd (snd (swagger_validate demo_plugin demo_lib get_pet health_route (demo_world, [])))
       = [GetOpForRequest ''GET'' ''/health'', Callback]"
  by (simp add: swagger_validate_def swagger_op_def Let_def call_def re_sub_health_route
      startswith_def health_route_def demo_plugin_def demo_lib_def demo_world_def get_pet_def)




section \<open>The schema endpoint: properties\<close>










end
